theory Spec2Isabelle
  imports Complex_Main "HOL-Library.Word"
begin

section \<open>Machine types of the sources\<close>

text \<open>
  The headers are C++ for the platforms SeisComP runs on: \<open>unsigned\<close> is a 32-bit
  word whose arithmetic wraps around, \<open>int\<close> is a 32-bit two's complement word
  (read with \<open>sint\<close>) and \<open>unsigned long long\<close> is a 64-bit word. A \<open>double\<close>
  is idealised as a real number: rounding, infinities and NaN are not modelled.
\<close>

type_synonym u32 = "32 word"
type_synonym s32 = "32 word"
type_synonym u64 = "64 word"
type_synonym double = real

section \<open>NonLinLoc grids (nllttt.h)\<close>

text \<open>\<open>Grid::Type\<close>.\<close>

datatype Type = time | angle | velocity

text \<open>
  \<open>Transform::Info\<close> and \<open>Grid::Info\<close>. The \<open>std::unique_ptr<Transform>\<close> of the
  grid header is an optional transform.
\<close>

record Transform_Info =
  ttype :: string
  tangle :: double
  cosang :: double
  sinang :: double
  orig_lat :: double
  orig_long :: double
  rot :: double
  sdc_xltkm :: double
  sdc_xlnkm :: double

record Info =
  hdrFilePath :: string
  bufFilePath :: string
  gridType :: Type
  swapBytes :: bool
  numx :: u64
  numy :: u64
  numz :: u64
  origx :: double
  origy :: double
  origz :: double
  gdx :: double
  gdy :: double
  gdz :: double
  gtype :: string
  useDouble :: bool
  label :: string
  srcex :: double
  srcey :: double
  srcez :: double
  transform :: "Transform_Info option"

text \<open>
  The class of a grid object: \<open>Grid\<close> itself (its constructor is public) or one of
  the three classes derived from it. \<open>is3D\<close> is virtual: the call is dispatched on
  the class of the object. Only \<open>VelGrid\<close> overrides it.
\<close>

datatype GridClass = Grid | TimeGrid | AngleGrid | VelGrid

record GridObj =
  cls :: GridClass
  info :: Info

definition Grid_is3D :: "Info \<Rightarrow> bool" where
  "Grid_is3D i = (numx i > 1)"

definition VelGrid_is3D :: "Info \<Rightarrow> bool" where
  "VelGrid_is3D i = (numx i > 2)"

fun is3D_of :: "GridClass \<Rightarrow> Info \<Rightarrow> bool" where
  "is3D_of VelGrid i = VelGrid_is3D i"
| "is3D_of c i = Grid_is3D i"

definition is3D :: "GridObj \<Rightarrow> bool" where
  "is3D g = is3D_of (cls g) (info g)"

section \<open>The double-difference system (solver.h)\<close>

text \<open>
  The header of the solver is the source file without a name; its include guard is
  \<open>__HDD_SOLVER_H__\<close>. It declares \<open>DDSystem\<close> and \<open>Solver\<close>; the bodies of the
  methods it only declares are in solver.cpp, which is not among the sources.

  \<open>struct DDSystem\<close>. \<open>double (*G)[4]\<close> is an array of 4-vectors; \<open>int *evByObs[2]\<close>
  is a pair of arrays of signed indices.
\<close>

type_synonym vec4 = "double \<times> double \<times> double \<times> double"

record DDSystem =
  nObs :: u32
  nEvts :: u32
  nPhStas :: u32
  nTTconstraints :: u32
  W :: "double list"
  G :: "vec4 list"
  m :: "double list"
  d :: "double list"
  L2NScaler :: "double list"
  evByObs :: "s32 list \<times> s32 list"
  phStaByObs :: "u32 list"
  numColsG :: u32
  numRowsG :: u32

text \<open>
  \<open>new double[n]\<close> leaves the cells of the array indeterminate. The constructor
  therefore takes, next to its four sizes, the contents that the fresh memory happens
  to hold: whatever is proved of the constructed system holds for every such contents.
  A failing allocation (\<open>std::bad_alloc\<close>) is not modelled: the constructor is
  described where it returns.
\<close>

record Uninit =
  mem_W :: "nat \<Rightarrow> double"
  mem_G :: "nat \<Rightarrow> vec4"
  mem_m :: "nat \<Rightarrow> double"
  mem_d :: "nat \<Rightarrow> double"
  mem_L2NScaler :: "nat \<Rightarrow> double"
  mem_evByObs0 :: "nat \<Rightarrow> s32"
  mem_evByObs1 :: "nat \<Rightarrow> s32"
  mem_phStaByObs :: "nat \<Rightarrow> u32"

definition new_array :: "(nat \<Rightarrow> 'a) \<Rightarrow> u32 \<Rightarrow> 'a list" where
  "new_array mem n = map mem [0..<unat n]"

text \<open>
  \<open>DDSystem::DDSystem\<close>. The member initialisers run in the order of declaration, so
  \<open>numColsG(nEvts * 4)\<close> reads the member \<open>nEvts\<close> already set; the body allocates
  after all of them. Every product and sum is one of \<open>unsigned\<close> values.
\<close>

definition new_DDSystem :: "Uninit \<Rightarrow> u32 \<Rightarrow> u32 \<Rightarrow> u32 \<Rightarrow> u32 \<Rightarrow> DDSystem" where
  "new_DDSystem mem n_Obs n_Evts n_PhStas n_TTconstraints =
     (let cols = n_Evts * 4;
          rows = n_Obs + n_TTconstraints
      in \<lparr>nObs = n_Obs, nEvts = n_Evts, nPhStas = n_PhStas,
          nTTconstraints = n_TTconstraints,
          W = new_array (mem_W mem) rows,
          G = new_array (mem_G mem) (n_Evts * n_PhStas),
          m = new_array (mem_m mem) cols,
          d = new_array (mem_d mem) rows,
          L2NScaler = new_array (mem_L2NScaler mem) cols,
          evByObs = (new_array (mem_evByObs0 mem) rows, new_array (mem_evByObs1 mem) rows),
          phStaByObs = new_array (mem_phStaByObs mem) rows,
          numColsG = cols,
          numRowsG = rows\<rparr>)"

text \<open>Fresh memory that holds zeros everywhere, for the evaluation of examples.\<close>

definition zero_mem :: Uninit where
  "zero_mem = \<lparr>mem_W = (\<lambda>_. 0), mem_G = (\<lambda>_. (0, 0, 0, 0)), mem_m = (\<lambda>_. 0),
     mem_d = (\<lambda>_. 0), mem_L2NScaler = (\<lambda>_. 0), mem_evByObs0 = (\<lambda>_. 0),
     mem_evByObs1 = (\<lambda>_. 0), mem_phStaByObs = (\<lambda>_. 0)\<rparr>"

text \<open>
  The comment on \<open>evByObs\<close>: ``index -1 means no parameters''. An entry of the
  two arrays is an \<open>int\<close>; the index of an event is an \<open>unsigned\<close> below \<open>nEvts\<close>,
  stored in the \<open>int\<close> cell with the same 32 bits.
\<close>

definition no_parameters :: "s32 \<Rightarrow> bool" where
  "no_parameters ev = (sint ev = - 1)"

section \<open>The solver (solver.h)\<close>

text \<open>The structs nested in \<open>class Solver\<close>.\<close>

record Observation =
  ev1Idx :: u32
  ev2Idx :: u32
  phStaIdx :: u32
  observedDiffTime :: double
  aPrioriWeight :: double
  isXcorr :: bool

record EventParams =
  ev_lat :: double
  ev_lon :: double
  ev_depth :: double
  ev_x :: double
  ev_y :: double
  ev_z :: double

record StationParams =
  sta_lat :: double
  sta_lon :: double
  sta_elevation :: double
  sta_x :: double
  sta_y :: double
  sta_z :: double

record ObservationParams =
  computeEvChanges :: bool
  travelTime :: double
  travelTimeResidual :: double
  takeOffAngleAzim :: double
  takeOffAngleDip :: double
  velocityAtSrc :: double
  dx :: double
  dy :: double
  dz :: double

record ParamStats =
  startingTTObs :: u32
  startingCCObs :: u32
  finalTotalObs :: u32
  totalAPrioriWeight :: double
  totalFinalWeight :: double
  totalResiduals :: double
  peerEvIds :: "u32 set"

record Centroid =
  c_lat :: double
  c_lon :: double
  c_depth :: double

record EventDeltas =
  deltaLat :: double
  deltaLon :: double
  deltaDepth :: double
  deltaTT :: double

text \<open>
  Modelled from the spec: \<open>IdToIndex\<close>, the template of utils.h (not among the
  sources) that numbers identifiers. It is the list of the identifiers converted so
  far, an identifier's index being its position; a default-constructed one is empty.
\<close>

type_synonym 'a IdToIndex = "'a list"

text \<open>
  \<open>class Solver\<close>: an \<open>unordered_map\<close> is a map, the smart pointer \<open>_dd\<close> is an
  optional system (\<open>None\<close> for the null pointer). The anonymous struct \<open>_centroid\<close>
  has no initialiser: it is \<open>None\<close> while its three doubles are indeterminate.
  The members are named as in the header, without the leading underscore.
\<close>

record Solver =
  eventIdConverter :: "u32 IdToIndex"
  phStaIdConverter :: "string IdToIndex"
  obsIdConverter :: "string IdToIndex"
  observations :: "u32 \<rightharpoonup> Observation"
  eventParams :: "u32 \<rightharpoonup> EventParams"
  stationParams :: "u32 \<rightharpoonup> StationParams"
  obsParams :: "u32 \<rightharpoonup> (u32 \<rightharpoonup> ObservationParams)"
  paramStats :: "u32 \<rightharpoonup> (u32 \<rightharpoonup> ParamStats)"
  centroid :: "Centroid option"
  eventDeltas :: "u32 \<rightharpoonup> EventDeltas"
  residuals :: "double list"
  dd :: "DDSystem option"
  solver_type :: string

text \<open>
  \<open>Solver(std::string type) : _type(type) {}\<close>: every other member is
  default-constructed.
\<close>

definition new_Solver :: "string \<Rightarrow> Solver" where
  "new_Solver t =
     \<lparr>eventIdConverter = [], phStaIdConverter = [], obsIdConverter = [],
      observations = Map.empty, eventParams = Map.empty, stationParams = Map.empty,
      obsParams = Map.empty, paramStats = Map.empty, centroid = None,
      eventDeltas = Map.empty, residuals = [], dd = None, solver_type = t\<rparr>"

text \<open>\<open>void reset() { *this = Solver(_type); }\<close>\<close>

definition reset :: "Solver \<Rightarrow> Solver" where
  "reset s = new_Solver (solver_type s)"

text \<open>
  The arguments \<open>Solver::solve\<close> runs with. All five parameters have a default, so
  a call gives any number of leading arguments and the defaults of the declaration
  fill the rest.
\<close>

record SolveArgs =
  numIterations :: u32
  useTTconstraint :: bool
  dampingFactor :: double
  residualDownWeight :: double
  normalizeG :: bool

datatype solve_call =
    solve0
  | solve1 u32
  | solve2 u32 bool
  | solve3 u32 bool double
  | solve4 u32 bool double double
  | solve5 u32 bool double double bool

fun solve_args :: "solve_call \<Rightarrow> SolveArgs" where
  "solve_args solve0 =
     \<lparr>numIterations = 0, useTTconstraint = False, dampingFactor = 0,
      residualDownWeight = 0, normalizeG = True\<rparr>"
| "solve_args (solve1 n) =
     \<lparr>numIterations = n, useTTconstraint = False, dampingFactor = 0,
      residualDownWeight = 0, normalizeG = True\<rparr>"
| "solve_args (solve2 n tt) =
     \<lparr>numIterations = n, useTTconstraint = tt, dampingFactor = 0,
      residualDownWeight = 0, normalizeG = True\<rparr>"
| "solve_args (solve3 n tt df) =
     \<lparr>numIterations = n, useTTconstraint = tt, dampingFactor = df,
      residualDownWeight = 0, normalizeG = True\<rparr>"
| "solve_args (solve4 n tt df rw) =
     \<lparr>numIterations = n, useTTconstraint = tt, dampingFactor = df,
      residualDownWeight = rw, normalizeG = True\<rparr>"
| "solve_args (solve5 n tt df rw ng) =
     \<lparr>numIterations = n, useTTconstraint = tt, dampingFactor = df,
      residualDownWeight = rw, normalizeG = ng\<rparr>"

text \<open>
  \<open>struct SolverOptions\<close> of the driver's header (hypodd.h, which follows nllttt.h
  in the same source file), with its member initialisers.
\<close>

record SolverOptions =
  type :: string
  L2normalization :: bool
  solverIterations :: u32
  algoIterations :: u32
  ttConstraint :: bool
  dampingFactorStart :: double
  dampingFactorEnd :: double
  downWeightingByResidualStart :: double
  downWeightingByResidualEnd :: double
  usePickUncertainty :: bool
  absTTDiffObsWeight :: double
  xcorrObsWeight :: double

definition default_SolverOptions :: SolverOptions where
  "default_SolverOptions =
     \<lparr>type = ''LSMR'', L2normalization = True, solverIterations = 0,
      algoIterations = 20, ttConstraint = True, dampingFactorStart = 0,
      dampingFactorEnd = 0, downWeightingByResidualStart = 0,
      downWeightingByResidualEnd = 0, usePickUncertainty = False,
      absTTDiffObsWeight = 1, xcorrObsWeight = 1\<rparr>"

section \<open>The observation store (section 4.D of the specification)\<close>

text \<open>
  Modelled from the spec: the three operations of \<open>IdToIndex\<close> (utils.h), on the
  list of identifiers above: the index of an identifier is its position.
\<close>

fun toIdx :: "'a IdToIndex \<Rightarrow> 'a \<Rightarrow> u32" where
  "toIdx [] x = 0"
| "toIdx (y # ys) x = (if x = y then 0 else toIdx ys x + 1)"

text \<open>Modelled from the spec: \<open>IdToIndex\<close>, whether an identifier has an index.\<close>

definition hasId :: "'a IdToIndex \<Rightarrow> 'a \<Rightarrow> bool" where
  "hasId ids x = (x \<in> set ids)"

text \<open>
  Modelled from the spec: \<open>IdToIndex\<close>, the conversion of an identifier, which gives
  a new one the next index.
\<close>

definition convert :: "'a IdToIndex \<Rightarrow> 'a \<Rightarrow> 'a IdToIndex" where
  "convert ids x = (if hasId ids x then ids else ids @ [x])"

text \<open>
  Modelled from the spec: the errors of section 7 that abort a call. Only the one
  that \<open>addObservation\<close> raises is needed.
\<close>

datatype error = InvalidInput

text \<open>
  Modelled from the spec: the canonical ordered key of an observation,
  \<open>(min(e1,e2), max(e1,e2), stationId, phase, isXcorr)\<close> (solver.cpp, which builds
  the key, is not among the sources).
\<close>

type_synonym ObsKey = "u32 \<times> u32 \<times> string \<times> char \<times> bool"

definition obsKey :: "u32 \<Rightarrow> u32 \<Rightarrow> string \<Rightarrow> char \<Rightarrow> bool \<Rightarrow> ObsKey" where
  "obsKey evId1 evId2 staId phase xcorr =
     (min evId1 evId2, max evId1 evId2, staId, phase, xcorr)"

text \<open>
  Modelled from the spec: the texts under which the header's two string-keyed
  converters know a phase at a station and an observation. The header fixes that the
  identifiers are strings, the specification what they identify; how solver.cpp writes
  them is not known, so the two writings are parameters of the model.
\<close>

record IdStrings =
  phStaId :: "string \<Rightarrow> char \<Rightarrow> string"
  obsId :: "ObsKey \<Rightarrow> string"

text \<open>
  Modelled from the spec: \<open>Solver::addObservation\<close> (declared in solver.h, defined in
  solver.cpp, which is not among the sources). A call whose canonical key is already
  known is rejected with \<open>InvalidInput\<close>; otherwise the two events and the phase at
  the station are numbered and the observation is stored under the next index, as
  \<open>(ev1_idx, ev2_idx, phSta_idx, dt, a_priori_weight, is_xcorr)\<close>.
\<close>

definition addObservation ::
  "IdStrings \<Rightarrow> Solver \<Rightarrow> u32 \<Rightarrow> u32 \<Rightarrow> string \<Rightarrow> char \<Rightarrow> double \<Rightarrow> double \<Rightarrow> bool
     \<Rightarrow> error + Solver" where
  "addObservation ids s evId1 evId2 staId phase diffTime aPrioriW xcorr =
     (let oid = obsId ids (obsKey evId1 evId2 staId phase xcorr) in
      if hasId (obsIdConverter s) oid then Inl InvalidInput
      else
        let evc = convert (convert (eventIdConverter s) evId1) evId2;
            psc = convert (phStaIdConverter s) (phStaId ids staId phase);
            obc = convert (obsIdConverter s) oid;
            ob = \<lparr>ev1Idx = toIdx evc evId1, ev2Idx = toIdx evc evId2,
                  phStaIdx = toIdx psc (phStaId ids staId phase),
                  observedDiffTime = diffTime, aPrioriWeight = aPrioriW, isXcorr = xcorr\<rparr>
        in Inr (s\<lparr>eventIdConverter := evc, phStaIdConverter := psc, obsIdConverter := obc,
                  observations := (observations s)(toIdx obc oid \<mapsto> ob)\<rparr>))"

text \<open>
  A caller of \<open>addObservation\<close>: the arguments of one call, the key they map to, and
  the solver after a sequence of calls. A rejected call throws before it changes
  anything, so the solver stays as it was and the caller goes on.
\<close>

type_synonym obs_args = "u32 \<times> u32 \<times> string \<times> char \<times> double \<times> double \<times> bool"

fun obsKey_of :: "obs_args \<Rightarrow> ObsKey" where
  "obsKey_of (evId1, evId2, staId, phase, diffTime, aPrioriW, xcorr) =
     obsKey evId1 evId2 staId phase xcorr"

fun addObservation_args :: "IdStrings \<Rightarrow> Solver \<Rightarrow> obs_args \<Rightarrow> error + Solver" where
  "addObservation_args ids s (evId1, evId2, staId, phase, diffTime, aPrioriW, xcorr) =
     addObservation ids s evId1 evId2 staId phase diffTime aPrioriW xcorr"

definition after_addObservation :: "IdStrings \<Rightarrow> obs_args \<Rightarrow> Solver \<Rightarrow> Solver" where
  "after_addObservation ids a s =
     (case addObservation_args ids s a of Inl e \<Rightarrow> s | Inr s' \<Rightarrow> s')"

definition after_addObservations :: "IdStrings \<Rightarrow> obs_args list \<Rightarrow> Solver \<Rightarrow> Solver" where
  "after_addObservations ids as s = fold (after_addObservation ids) as s"

text \<open>One way of writing the identifiers, for the evaluation of examples.\<close>

definition example_ids :: IdStrings where
  "example_ids =
     \<lparr>phStaId = (\<lambda>sta ph. ph # CHR ''@'' # sta),
      obsId = (\<lambda>(e1, e2, sta, ph, xcorr).
         (if xcorr then ''xcorr:'' else ''tt:'') @ ph # CHR ''@'' # sta @ CHR '':'' #
         replicate (unat e1) CHR ''i'' @ CHR ''+'' # replicate (unat e2) CHR ''i'')\<rparr>"

section \<open>The matrix-vector product (section 4.C of the specification)\<close>

text \<open>The component \<open>g[k]\<close> of a 4-vector.\<close>

fun vec4_nth :: "vec4 \<Rightarrow> nat \<Rightarrow> double" where
  "vec4_nth (a, b, c, e) k =
     (if k = 0 then a else if k = 1 then b else if k = 2 then c else e)"

text \<open>
  Modelled from the spec: the event that an entry of \<open>evByObs\<close> other than \<open>-1\<close>
  points to.
\<close>

definition ev_index :: "s32 \<Rightarrow> nat" where
  "ev_index ev = nat (sint ev)"

text \<open>
  Modelled from the spec: \<open>G[e, s]\<close>, the 4-vector of event \<open>e\<close> and phase-station
  \<open>s\<close> in the storage of shape \<open>[nEvts \<times> nPhStas]\<close>.
\<close>

definition G_at :: "DDSystem \<Rightarrow> nat \<Rightarrow> nat \<Rightarrow> vec4" where
  "G_at sys e s = G sys ! (e * unat (nPhStas sys) + s)"

text \<open>
  Modelled from the spec: the term of one event in an observation row,
  \<open>\<Sum>_k G[e,phSta][k] \<cdot> x[e\<cdot>4+k]\<close>, dropped when the index is \<open>-1\<close> (the product is
  defined in solver.cpp, which is not among the sources).
\<close>

definition event_term :: "DDSystem \<Rightarrow> double list \<Rightarrow> s32 \<Rightarrow> u32 \<Rightarrow> double" where
  "event_term sys x ev s =
     (if no_parameters ev then 0
      else (\<Sum>k\<leftarrow>[0, 1, 2, 3].
              vec4_nth (G_at sys (ev_index ev) (unat s)) k * x ! (ev_index ev * 4 + k)))"

text \<open>
  Modelled from the spec: the entry \<open>y[r]\<close> of the product. The first \<open>nObs\<close> rows
  are the observations; the constraint rows follow, one per event and in the order of
  the events, so that row \<open>nObs + e\<close> belongs to event \<open>e\<close>.
\<close>

definition row_product :: "DDSystem \<Rightarrow> double list \<Rightarrow> nat \<Rightarrow> double" where
  "row_product sys x r =
     (if r < unat (nObs sys)
      then W sys ! r * (event_term sys x (fst (evByObs sys) ! r) (phStaByObs sys ! r)
                        - event_term sys x (snd (evByObs sys) ! r) (phStaByObs sys ! r))
      else W sys ! r * x ! ((r - unat (nObs sys)) * 4 + 3))"

text \<open>
  Modelled from the spec: an entry of \<open>evByObs\<close> is \<open>-1\<close> or the index of an event
  of the system.
\<close>

definition valid_ev :: "DDSystem \<Rightarrow> s32 \<Rightarrow> bool" where
  "valid_ev sys ev = (no_parameters ev \<or> (0 \<le> sint ev \<and> ev_index ev < unat (nEvts sys)))"

text \<open>
  Modelled from the spec: the system is one of section 3, so that the product reads
  every array inside its bounds: the sizes are those of the constructor without
  overflow, there is at most one constraint row per event, and the metadata of the
  observation rows points to events and phase-stations of the system.
\<close>

definition in_bounds :: "DDSystem \<Rightarrow> bool" where
  "in_bounds sys =
     (unat (numRowsG sys) = unat (nObs sys) + unat (nTTconstraints sys)
      \<and> unat (nTTconstraints sys) \<le> unat (nEvts sys)
      \<and> unat (numColsG sys) = 4 * unat (nEvts sys)
      \<and> length (W sys) = unat (numRowsG sys)
      \<and> length (fst (evByObs sys)) = unat (numRowsG sys)
      \<and> length (snd (evByObs sys)) = unat (numRowsG sys)
      \<and> length (phStaByObs sys) = unat (numRowsG sys)
      \<and> length (G sys) = unat (nEvts sys) * unat (nPhStas sys)
      \<and> list_all (valid_ev sys) (take (unat (nObs sys)) (fst (evByObs sys)))
      \<and> list_all (valid_ev sys) (take (unat (nObs sys)) (snd (evByObs sys)))
      \<and> list_all (\<lambda>s. s < nPhStas sys) (take (unat (nObs sys)) (phStaByObs sys)))"

text \<open>Modelled from the spec: the rows of the product \<open>y = G\<cdot>x\<close>, one after the other.\<close>

definition product_rows :: "DDSystem \<Rightarrow> double list \<Rightarrow> double list" where
  "product_rows sys x = map (row_product sys x) [0..<unat (numRowsG sys)]"

text \<open>
  Modelled from the spec: the matrix-vector product \<open>y = G\<cdot>x\<close>. Outside the bounds
  the C++ would read memory it does not own; the model has no result there.
\<close>

definition product :: "DDSystem \<Rightarrow> double list \<Rightarrow> double list option" where
  "product sys x =
     (if in_bounds sys \<and> length x = unat (numColsG sys) then Some (product_rows sys x)
      else None)"

text \<open>
  The term of one event as the claim words it: the three partial derivatives times
  the three coordinates, plus the origin-time entry with coefficient 1, and nothing when
  the index is \<open>-1\<close>.
\<close>

definition claimed_side :: "DDSystem \<Rightarrow> double list \<Rightarrow> s32 \<Rightarrow> u32 \<Rightarrow> double" where
  "claimed_side sys x ev s =
     (if sint ev = - 1 then 0
      else case G sys ! (nat (sint ev) * unat (nPhStas sys) + unat s) of (gx, gy, gz, gt) \<Rightarrow>
        gx * x ! (nat (sint ev) * 4) + gy * x ! (nat (sint ev) * 4 + 1)
        + gz * x ! (nat (sint ev) * 4 + 2) + x ! (nat (sint ev) * 4 + 3))"

text \<open>
  A system of two events and one phase-station, with two observation rows (the second
  has a fixed second event) and two constraint rows, and a vector to multiply it with.
\<close>

definition example_system :: DDSystem where
  "example_system =
     \<lparr>nObs = 2, nEvts = 2, nPhStas = 1, nTTconstraints = 2,
      W = [1, 2, 1, 1], G = [(3, 0, 4, 1), (0, 1, 0, 1)],
      m = [0, 0, 0, 0, 0, 0, 0, 0], d = [0, 0, 0, 0],
      L2NScaler = [1, 1, 1, 1, 1, 1, 1, 1],
      evByObs = ([0, 1, 0, 0], [1, - 1, 0, 0]), phStaByObs = [0, 0, 0, 0],
      numColsG = 8, numRowsG = 4\<rparr>"

definition example_x :: "double list" where
  "example_x = [1, 1, 1, 1, 2, 2, 2, 2]"

section \<open>Column normalization (section 4.F, step 5, of the specification)\<close>

text \<open>The vector \<open>e_c\<close> of length \<open>n\<close>.\<close>

definition unit_vector :: "nat \<Rightarrow> nat \<Rightarrow> double list" where
  "unit_vector n c = (replicate n 0)[c := 1]"

text \<open>The L2 norm of a vector.\<close>

definition l2norm :: "double list \<Rightarrow> double" where
  "l2norm ys = sqrt (\<Sum>y\<leftarrow>ys. y\<^sup>2)"

text \<open>
  Modelled from the spec: the L2 norm of column \<open>c\<close>, the column being the product
  \<open>G\<cdot>e_c\<close> of the system with the unit vector (the normalization is part of
  solver.cpp, which is not among the sources). The product of section 4.C carries the
  weights of the rows; the columns of the matrix without them are those of the system
  with every weight set to 1, which is another system within the same bounds.
\<close>

definition column_norm :: "DDSystem \<Rightarrow> nat \<Rightarrow> double" where
  "column_norm sys c = l2norm (product_rows sys (unit_vector (unat (numColsG sys)) c))"

text \<open>
  Modelled from the spec: the computation of \<open>L2NScaler\<close>, the norm of each column,
  set to 1 where the norm is 0.
\<close>

definition computeL2NScaler :: "DDSystem \<Rightarrow> DDSystem" where
  "computeL2NScaler sys =
     sys\<lparr>L2NScaler := map (\<lambda>c. if column_norm sys c = 0 then 1 else column_norm sys c)
                          [0..<unat (numColsG sys)]\<rparr>"

text \<open>
  Modelled from the spec: \<open>m = m' / L2NScaler\<close>, the division of a vector by the
  scalers, entry by entry.
\<close>

definition divide_by_scaler :: "DDSystem \<Rightarrow> double list \<Rightarrow> double list" where
  "divide_by_scaler sys x = map (\<lambda>(v, l). v / l) (zip x (L2NScaler sys))"

text \<open>
  Modelled from the spec: the product that honours the normalization, in which \<open>x\<close>
  is taken as already divided by \<open>L2NScaler\<close>: the product of the effective matrix
  \<open>G\<cdot>diag(1/L2NScaler)\<close>.
\<close>

definition normalized_product :: "DDSystem \<Rightarrow> double list \<Rightarrow> double list option" where
  "normalized_product sys x =
     (if length (L2NScaler sys) = unat (numColsG sys) then product sys (divide_by_scaler sys x)
      else None)"

section \<open>The residual reweighter (section 4.G of the specification)\<close>





section \<open>The travel-time adapter and the driver (sections 4.H and 4.F)\<close>

text \<open>
  The four outputs of \<open>NllTravelTimeTable::compute\<close> (nllttt.h): the function
  returns nothing and writes \<open>travelTime\<close>, \<open>takeOfAngleAzim\<close>, \<open>takeOfAngleDip\<close> and
  \<open>velocityAtSrc\<close> through references.
\<close>

record TravelTimeInfo =
  tt_travelTime :: double
  tt_takeOfAngleAzim :: double
  tt_takeOfAngleDip :: double
  tt_velocityAtSrc :: double

text \<open>
  Modelled from the spec: the failure indicator of the adapter, for a request that
  falls outside the model.
\<close>

datatype ttt_error = OutsideModel

text \<open>Modelled from the spec: the hypocenter of an event, \<open>(lat, lon, depth, t0)\<close>.\<close>

record Hypocenter =
  h_lat :: double
  h_lon :: double
  h_depth :: double
  h_time :: double

text \<open>
  Modelled from the spec: the adapter as the driver calls it, for the location of an
  event and a phase at a station. Its body (nllttt.cpp) is not among the sources: it
  is a parameter of the driver.
\<close>

type_synonym adapter = "Hypocenter \<Rightarrow> nat \<Rightarrow> ttt_error + TravelTimeInfo"

text \<open>
  Modelled from the spec: what the driver needs of an observation between two
  events, the indices of the events and of the phase at the station.
\<close>

record EventPairObs =
  ob_ev1 :: nat
  ob_ev2 :: nat
  ob_phSta :: nat

text \<open>
  Modelled from the spec: the metadata of a row that the driver packs into the
  system, as in \<open>evByObs\<close> and \<open>phStaByObs\<close>.
\<close>

record Row =
  row_ev1 :: s32
  row_ev2 :: s32
  row_phSta :: nat

text \<open>
  Modelled from the spec: what the driver holds across the outer iterations, the
  hypocenters and the events whose column is fixed.
\<close>

record Driver =
  hypocenters :: "Hypocenter list"
  fixed_events :: "nat list"

text \<open>
  Modelled from the spec: the solve and the update of the hypocenters at the end of
  an outer iteration (steps 5 to 9), a parameter of the driver.
\<close>

type_synonym inner_solver = "Row list \<Rightarrow> Hypocenter list \<Rightarrow> Hypocenter list"

text \<open>
  Modelled from the spec: the events for which the adapter fails at a
  phase-station that an observation refers to (step 2 of the outer loop; the driver is
  hypodd.cpp, which is not among the sources).
\<close>

definition failed_events :: "adapter \<Rightarrow> Hypocenter list \<Rightarrow> EventPairObs list \<Rightarrow> nat list" where
  "failed_events compute hyps obs =
     concat (map (\<lambda>ob.
        (if isl (compute (hyps ! ob_ev1 ob) (ob_phSta ob)) then [ob_ev1 ob] else [])
        @ (if isl (compute (hyps ! ob_ev2 ob) (ob_phSta ob)) then [ob_ev2 ob] else [])) obs)"

text \<open>
  Modelled from the spec: section 7, a row whose travel time is missing is omitted.
\<close>

definition has_travel_times :: "adapter \<Rightarrow> Hypocenter list \<Rightarrow> EventPairObs \<Rightarrow> bool" where
  "has_travel_times compute hyps ob =
     (\<not> isl (compute (hyps ! ob_ev1 ob) (ob_phSta ob))
      \<and> \<not> isl (compute (hyps ! ob_ev2 ob) (ob_phSta ob)))"

text \<open>
  Modelled from the spec: the index that a row gets for an event, \<open>-1\<close> when the
  column of the event is fixed.
\<close>

definition pack_index :: "nat list \<Rightarrow> nat \<Rightarrow> s32" where
  "pack_index fixed e = (if e \<in> set fixed then - 1 else of_nat e)"

text \<open>Modelled from the spec: the row packed for an observation.\<close>

definition build_row :: "nat list \<Rightarrow> EventPairObs \<Rightarrow> Row" where
  "build_row fixed ob =
     \<lparr>row_ev1 = pack_index fixed (ob_ev1 ob), row_ev2 = pack_index fixed (ob_ev2 ob),
      row_phSta = ob_phSta ob\<rparr>"

text \<open>
  Modelled from the spec: one outer iteration of the driver. The events for which the
  adapter fails join the fixed ones, the rows are built and the hypocenters updated.
  It gives the rows of the system it built and the driver for the next iteration.
\<close>

definition outer_iteration ::
  "adapter \<Rightarrow> inner_solver \<Rightarrow> EventPairObs list \<Rightarrow> Driver \<Rightarrow> Row list \<times> Driver" where
  "outer_iteration compute solver obs st =
     (let fixed = fixed_events st @ failed_events compute (hypocenters st) obs;
          rows = map (build_row fixed) (filter (has_travel_times compute (hypocenters st)) obs)
      in (rows, \<lparr>hypocenters = solver rows (hypocenters st), fixed_events = fixed\<rparr>))"

text \<open>
  Modelled from the spec: the outer loop of \<open>n\<close> iterations; it gives the systems
  that the iterations built, in their order.
\<close>

fun relocate ::
  "adapter \<Rightarrow> inner_solver \<Rightarrow> EventPairObs list \<Rightarrow> nat \<Rightarrow> Driver \<Rightarrow> Row list list" where
  "relocate compute solver obs 0 st = []"
| "relocate compute solver obs (Suc n) st =
     (case outer_iteration compute solver obs st of
        (rows, st') \<Rightarrow> rows # relocate compute solver obs n st')"

text \<open>Modelled from the spec: the driver at the start of outer iteration \<open>i\<close>.\<close>

fun state_before ::
  "adapter \<Rightarrow> inner_solver \<Rightarrow> EventPairObs list \<Rightarrow> nat \<Rightarrow> Driver \<Rightarrow> Driver" where
  "state_before compute solver obs 0 st = st"
| "state_before compute solver obs (Suc i) st =
     state_before compute solver obs i (snd (outer_iteration compute solver obs st))"

text \<open>
  An adapter whose second phase-station covers depths down to 10 km only, a solve
  that leaves the hypocenters where they are, three events of which the third is too
  deep, and three observations, for the evaluation of examples.
\<close>

definition example_compute :: adapter where
  "example_compute h s =
     (if h_depth h \<le> 10 \<or> s = 0
      then Inr \<lparr>tt_travelTime = 1, tt_takeOfAngleAzim = 0, tt_takeOfAngleDip = 90,
                tt_velocityAtSrc = 6\<rparr>
      else Inl OutsideModel)"

definition example_solver :: inner_solver where
  "example_solver rows hyps = hyps"

definition example_driver :: Driver where
  "example_driver =
     \<lparr>hypocenters =
        [\<lparr>h_lat = 0, h_lon = 0, h_depth = 5, h_time = 0\<rparr>,
         \<lparr>h_lat = 0, h_lon = 1, h_depth = 5, h_time = 0\<rparr>,
         \<lparr>h_lat = 1, h_lon = 0, h_depth = 12, h_time = 0\<rparr>],
      fixed_events = []\<rparr>"

definition example_obs :: "EventPairObs list" where
  "example_obs =
     [\<lparr>ob_ev1 = 0, ob_ev2 = 1, ob_phSta = 0\<rparr>, \<lparr>ob_ev1 = 2, ob_ev2 = 1, ob_phSta = 0\<rparr>,
      \<lparr>ob_ev1 = 2, ob_ev2 = 1, ob_phSta = 1\<rparr>]"

section \<open>Theorems\<close>

subsection \<open>The constructor of the system\<close>

lemma length_new_array: "length (new_array mem n) = unat n"
  by (simp add: new_array_def)

lemma unat_u32_plus: "unat ((a::u32) + b) = (unat a + unat b) mod 2 ^ 32"
  by (simp add: unat_word_ariths)

lemma unat_u32_times: "unat ((a::u32) * b) = (unat a * unat b) mod 2 ^ 32"
  by (simp add: unat_word_ariths)

text \<open>
  C2, as stated, fails where the \<open>unsigned\<close> arithmetic of the constructor wraps:
  \<open>DDSystem(0, 65536, 65536, 0)\<close> allocates \<open>65536 * 65536 = 0\<close> 4-vectors for its
  \<open>2 ^ 32\<close> pairs of an event and a phase-station, and \<open>DDSystem(4294967295, 0, 0, 1)\<close>
  has no row at all.
\<close>

theorem new_DDSystem_sizes_counterexample:
  "length (G (new_DDSystem zero_mem 0 65536 65536 0)) = 0
   \<and> length (G (new_DDSystem zero_mem 0 65536 65536 0))
       \<noteq> unat (65536::u32) * unat (65536::u32)
   \<and> length (W (new_DDSystem zero_mem 4294967295 0 0 1))
       \<noteq> unat (4294967295::u32) + unat (1::u32)"
  by (simp add: new_DDSystem_def new_array_def)

text \<open>
  C2, amended. For every \<open>(nObs, nEvts, nPhStas, nTTconstraints)\<close> and every contents
  of the fresh memory, the constructed system has \<open>numRowsG = (nObs + nTTconstraints)
  mod 2^32\<close> rows, and \<open>W\<close>, \<open>d\<close>, \<open>evByObs[0]\<close>, \<open>evByObs[1]\<close>, \<open>phStaByObs\<close> have
  this length; it has \<open>numColsG = (4 * nEvts) mod 2^32\<close> columns, and \<open>m\<close> and
  \<open>L2NScaler\<close> have this length; \<open>G\<close> holds \<open>(nEvts * nPhStas) mod 2^32\<close> 4-vectors.
  Whenever the three values are below \<open>2^32\<close>, these are \<open>nObs + nTTconstraints\<close>
  rows, \<open>4 * nEvts\<close> columns and \<open>nEvts * nPhStas\<close> 4-vectors, one for each pair of an
  event and a phase-station.
\<close>

theorem new_DDSystem_sizes:
  fixes mem :: Uninit and n_Obs n_Evts n_PhStas n_TT :: u32
  defines "sys \<equiv> new_DDSystem mem n_Obs n_Evts n_PhStas n_TT"
  shows "unat (numRowsG sys) = (unat n_Obs + unat n_TT) mod 2 ^ 32
   \<and> length (W sys) = unat (numRowsG sys)
   \<and> length (d sys) = unat (numRowsG sys)
   \<and> length (fst (evByObs sys)) = unat (numRowsG sys)
   \<and> length (snd (evByObs sys)) = unat (numRowsG sys)
   \<and> length (phStaByObs sys) = unat (numRowsG sys)
   \<and> unat (numColsG sys) = (4 * unat n_Evts) mod 2 ^ 32
   \<and> length (m sys) = unat (numColsG sys)
   \<and> length (L2NScaler sys) = unat (numColsG sys)
   \<and> length (G sys) = (unat n_Evts * unat n_PhStas) mod 2 ^ 32
   \<and> (unat n_Obs + unat n_TT < 2 ^ 32 \<longrightarrow> unat (numRowsG sys) = unat n_Obs + unat n_TT)
   \<and> (4 * unat n_Evts < 2 ^ 32 \<longrightarrow> unat (numColsG sys) = 4 * unat n_Evts)
   \<and> (unat n_Evts * unat n_PhStas < 2 ^ 32
        \<longrightarrow> length (G sys) = unat n_Evts * unat n_PhStas)"
proof -
  have rows: "unat (numRowsG sys) = (unat n_Obs + unat n_TT) mod 2 ^ 32"
    by (simp add: sys_def new_DDSystem_def Let_def unat_u32_plus)
  have cols: "unat (numColsG sys) = (4 * unat n_Evts) mod 2 ^ 32"
    by (simp add: sys_def new_DDSystem_def Let_def unat_u32_times mult.commute)
  have g: "length (G sys) = (unat n_Evts * unat n_PhStas) mod 2 ^ 32"
    by (simp add: sys_def new_DDSystem_def Let_def length_new_array unat_u32_times)
  have lens: "length (W sys) = unat (numRowsG sys)" "length (d sys) = unat (numRowsG sys)"
    "length (fst (evByObs sys)) = unat (numRowsG sys)"
    "length (snd (evByObs sys)) = unat (numRowsG sys)"
    "length (phStaByObs sys) = unat (numRowsG sys)"
    "length (m sys) = unat (numColsG sys)" "length (L2NScaler sys) = unat (numColsG sys)"
    by (simp_all add: sys_def new_DDSystem_def Let_def length_new_array)
  from rows cols g lens show ?thesis by simp
qed

theorem new_DDSystem_sizes_witness:
  "unat (numRowsG (new_DDSystem zero_mem 5 3 2 3)) = 8
   \<and> length (W (new_DDSystem zero_mem 5 3 2 3)) = 8
   \<and> unat (numColsG (new_DDSystem zero_mem 5 3 2 3)) = 12
   \<and> length (m (new_DDSystem zero_mem 5 3 2 3)) = 12
   \<and> length (G (new_DDSystem zero_mem 5 3 2 3)) = 6"
  using new_DDSystem_sizes [of zero_mem 5 3 2 3] by simp

subsection \<open>Observations and the index -1\<close>

text \<open>
  C3. A stored observation is a value of its six fields \<open>(ev1Idx, ev2Idx, phStaIdx,
  observedDiffTime, aPrioriWeight, isXcorr)\<close> and nothing else. An entry of \<open>evByObs\<close>
  is a signed 32-bit integer, so it can hold \<open>-1\<close>, the value the header reserves for
  ``no parameters''; and \<open>-1\<close> is never the index of an event of the system, because
  such an index is below \<open>nEvts\<close>.
\<close>

theorem Observation_fields_and_index_minus_1:
  "(\<exists>e1 e2 ps dt w xc. (obs :: Observation) =
       \<lparr>ev1Idx = e1, ev2Idx = e2, phStaIdx = ps, observedDiffTime = dt,
        aPrioriWeight = w, isXcorr = xc\<rparr>)
   \<and> (\<exists>ev :: s32. sint ev = - 1 \<and> no_parameters ev)
   \<and> (no_parameters ev' \<longleftrightarrow> ev' = - 1)
   \<and> (e < nEvts sys \<longrightarrow> \<not> no_parameters e)"
proof -
  have fields: "\<exists>e1 e2 ps dt w xc. obs =
       \<lparr>ev1Idx = e1, ev2Idx = e2, phStaIdx = ps, observedDiffTime = dt,
        aPrioriWeight = w, isXcorr = xc\<rparr>"
    by (cases obs) simp
  have minus1: "no_parameters x \<longleftrightarrow> x = - 1" for x :: s32
    unfolding no_parameters_def by (metis sint_n1 word_eq_iff_signed)
  have rep: "\<exists>ev :: s32. sint ev = - 1 \<and> no_parameters ev"
    by (rule exI [of _ "- 1"]) (simp add: no_parameters_def)
  have "\<not> no_parameters e" if "e < nEvts sys"
  proof
    assume "no_parameters e"
    then have "e = - 1" by (simp add: minus1)
    with that show False by simp
  qed
  with fields rep minus1 show ?thesis by blast
qed

theorem Observation_fields_and_index_minus_1_witness:
  "(2::u32) < nEvts (new_DDSystem zero_mem 5 3 2 3) \<and> \<not> no_parameters (2::s32)
   \<and> no_parameters (4294967295::s32)"
  using Observation_fields_and_index_minus_1
    [of _ 4294967295 2 "new_DDSystem zero_mem 5 3 2 3"]
  by (simp add: new_DDSystem_def)

subsection \<open>Resetting the solver\<close>

text \<open>
  C8. Whatever the solver holds, \<open>reset\<close> leaves it equal to a freshly constructed
  \<open>Solver(t)\<close>, \<open>t\<close> being its type string: the observations, the parameters of
  events, stations and observations, the statistics, the event deltas, the residuals
  and the three id converters are empty, the pointer to the system is null, and the
  type string is the one it had. The bodies of \<open>addObservation\<close>,
  \<open>addObservationParams\<close> and \<open>solve\<close> are not among the sources: a call is any
  change of the solver that leaves its type string alone, which is all the statement
  needs of it.
\<close>

theorem reset_is_fresh_Solver:
  fixes calls :: "(Solver \<Rightarrow> Solver) list" and t :: string
  assumes "\<forall>call \<in> set calls. \<forall>s. solver_type (call s) = solver_type s"
  defines "s' \<equiv> reset (fold (\<lambda>call s. call s) calls (new_Solver t))"
  shows "s' = new_Solver t
   \<and> observations s' = Map.empty \<and> obsParams s' = Map.empty
   \<and> eventParams s' = Map.empty \<and> stationParams s' = Map.empty
   \<and> paramStats s' = Map.empty \<and> eventDeltas s' = Map.empty
   \<and> residuals s' = [] \<and> eventIdConverter s' = [] \<and> phStaIdConverter s' = []
   \<and> obsIdConverter s' = [] \<and> dd s' = None \<and> solver_type s' = t"
proof -
  have keep: "solver_type (fold (\<lambda>call s. call s) cs s0) = solver_type s0"
    if "\<forall>call \<in> set cs. \<forall>s. solver_type (call s) = solver_type s" for cs s0
    using that by (induction cs arbitrary: s0) simp_all
  have "solver_type (fold (\<lambda>call s. call s) calls (new_Solver t)) = t"
    using keep [OF assms(1)] by (simp add: new_Solver_def)
  then have "s' = new_Solver t"
    by (simp add: s'_def reset_def)
  then show ?thesis
    by (simp add: new_Solver_def)
qed

theorem reset_is_fresh_Solver_witness:
  "reset (fold (\<lambda>call s. call s)
       [residuals_update (\<lambda>_. [1, 2]), dd_update (\<lambda>_. Some (new_DDSystem zero_mem 5 3 2 3)),
        obsIdConverter_update (\<lambda>ids. ids @ [''obs'']), centroid_update (\<lambda>_. None)]
       (new_Solver ''LSMR'')) = new_Solver ''LSMR''"
  using reset_is_fresh_Solver
    [of "[residuals_update (\<lambda>_. [1, 2]), dd_update (\<lambda>_. Some (new_DDSystem zero_mem 5 3 2 3)),
        obsIdConverter_update (\<lambda>ids. ids @ [''obs'']), centroid_update (\<lambda>_. None)]" "''LSMR''"]
  by simp

subsection \<open>Defaults\<close>

text \<open>
  C9. \<open>solve()\<close>, called with no argument, runs with \<open>numIterations = 0\<close>,
  \<open>useTTconstraint = false\<close>, \<open>dampingFactor = 0\<close>, \<open>residualDownWeight = 0\<close> and
  \<open>normalizeG = true\<close>: the travel-time constraint and the residual down-weighting
  are off by default at the solver, while the defaults of the driver's
  \<open>SolverOptions\<close> turn \<open>ttConstraint\<close> on and set \<open>algoIterations = 20\<close>.
\<close>

theorem solve_defaults:
  "solve_args solve0 =
     \<lparr>numIterations = 0, useTTconstraint = False, dampingFactor = 0,
      residualDownWeight = 0, normalizeG = True\<rparr>
   \<and> \<not> useTTconstraint (solve_args solve0)
   \<and> residualDownWeight (solve_args solve0) = 0
   \<and> ttConstraint default_SolverOptions
   \<and> algoIterations default_SolverOptions = 20
   \<and> useTTconstraint (solve_args solve0) \<noteq> ttConstraint default_SolverOptions"
  by (simp add: default_SolverOptions_def)

subsection \<open>Grids\<close>

text \<open>
  C10. \<open>Grid::is3D()\<close> is true exactly when \<open>numx > 1\<close>; \<open>VelGrid\<close> overrides it to
  be true exactly when \<open>numx > 2\<close>. So a velocity grid with \<open>numx = 2\<close> is classified
  as 2-D, while a time grid or an angle grid (or a plain \<open>Grid\<close>) with the same
  dimensions is classified as 3-D.
\<close>

theorem is3D_Grid_versus_VelGrid:
  "Grid_is3D i = (1 < numx i)
   \<and> is3D \<lparr>cls = Grid, info = i\<rparr> = (1 < numx i)
   \<and> is3D \<lparr>cls = TimeGrid, info = i\<rparr> = (1 < numx i)
   \<and> is3D \<lparr>cls = AngleGrid, info = i\<rparr> = (1 < numx i)
   \<and> is3D \<lparr>cls = VelGrid, info = i\<rparr> = (2 < numx i)
   \<and> \<not> is3D \<lparr>cls = VelGrid, info = i\<lparr>numx := 2\<rparr>\<rparr>
   \<and> is3D \<lparr>cls = TimeGrid, info = i\<lparr>numx := 2\<rparr>\<rparr>
   \<and> is3D \<lparr>cls = AngleGrid, info = i\<lparr>numx := 2\<rparr>\<rparr>"
  by (simp add: is3D_def Grid_is3D_def VelGrid_is3D_def)

subsection \<open>Duplicate observations\<close>

lemma addObservation_args_rejects:
  "obsId ids (obsKey_of a) \<in> set (obsIdConverter s)
    \<Longrightarrow> addObservation_args ids s a = Inl InvalidInput"
  by (cases a) (simp add: addObservation_def hasId_def)

lemma after_addObservation_has:
  "obsId ids (obsKey_of a) \<in> set (obsIdConverter (after_addObservation ids a s))"
  by (cases a)
    (simp add: after_addObservation_def addObservation_def hasId_def convert_def Let_def)

lemma after_addObservation_mono:
  "x \<in> set (obsIdConverter s) \<Longrightarrow> x \<in> set (obsIdConverter (after_addObservation ids a s))"
  by (cases a)
    (simp add: after_addObservation_def addObservation_def hasId_def convert_def Let_def)

lemma after_addObservations_mono:
  "x \<in> set (obsIdConverter s)
    \<Longrightarrow> x \<in> set (obsIdConverter (after_addObservations ids calls s))"
  unfolding after_addObservations_def
  by (induction calls arbitrary: s) (simp_all add: after_addObservation_mono)

lemma after_addObservations_has:
  "a \<in> set calls
    \<Longrightarrow> obsId ids (obsKey_of a) \<in> set (obsIdConverter (after_addObservations ids calls s))"
proof (induction calls arbitrary: s)
  case Nil
  then show ?case by simp
next
  case (Cons b bs)
  show ?case
  proof (cases "a = b")
    case True
    have "obsId ids (obsKey_of b) \<in> set (obsIdConverter (after_addObservation ids b s))"
      by (rule after_addObservation_has)
    then have "obsId ids (obsKey_of b)
        \<in> set (obsIdConverter (after_addObservations ids bs (after_addObservation ids b s)))"
      by (rule after_addObservations_mono)
    with True show ?thesis
      by (simp add: after_addObservations_def)
  next
    case False
    with Cons show ?thesis by (simp add: after_addObservations_def)
  qed
qed

text \<open>
  C4. Whatever the solver holds and whatever calls of \<open>addObservation\<close> it has seen,
  once one of them had the arguments \<open>a\<close>, a call whose arguments map to the same
  canonical key \<open>(min(e1,e2), max(e1,e2), stationId, phase, isXcorr)\<close> is rejected
  with \<open>InvalidInput\<close> and leaves the solver, and so its store of observations, as
  it was.
\<close>

theorem addObservation_rejects_duplicate:
  fixes ids :: IdStrings and s :: Solver
  assumes "a \<in> set calls" and "obsKey_of a' = obsKey_of a"
  defines "s' \<equiv> after_addObservations ids calls s"
  shows "addObservation_args ids s' a' = Inl InvalidInput
    \<and> after_addObservation ids a' s' = s'
    \<and> observations (after_addObservation ids a' s') = observations s'"
proof -
  have "obsId ids (obsKey_of a') \<in> set (obsIdConverter s')"
    using after_addObservations_has [OF assms(1), of ids s] assms(2) by (simp add: s'_def)
  then have "addObservation_args ids s' a' = Inl InvalidInput"
    by (rule addObservation_args_rejects)
  then show ?thesis by (simp add: after_addObservation_def)
qed

theorem addObservation_rejects_duplicate_witness:
  "addObservation_args example_ids
      (after_addObservations example_ids [(1, 2, ''ST1'', CHR ''P'', 1 / 2, 1, False)]
         (new_Solver ''LSMR''))
      (2, 1, ''ST1'', CHR ''P'', 1 / 4, 1 / 2, False) = Inl InvalidInput
   \<and> observations
        (after_addObservations example_ids [(1, 2, ''ST1'', CHR ''P'', 1 / 2, 1, False)]
           (new_Solver ''LSMR'')) 0
      = Some \<lparr>ev1Idx = 0, ev2Idx = 1, phStaIdx = 0, observedDiffTime = 1 / 2,
               aPrioriWeight = 1, isXcorr = False\<rparr>"
proof -
  have key: "obsKey_of (2, 1, ''ST1'', CHR ''P'', 1 / 4, 1 / 2, False)
      = obsKey_of (1, 2, ''ST1'', CHR ''P'', 1 / 2, 1, False)"
    by (simp add: obsKey_def)
  have mem: "(1, 2, ''ST1'', CHR ''P'', 1 / 2, 1, False)
      \<in> set [(1 :: u32, 2 :: u32, ''ST1'', CHR ''P'', 1 / 2 :: double, 1 :: double, False)]"
    by simp
  have stored: "observations
        (after_addObservations example_ids [(1, 2, ''ST1'', CHR ''P'', 1 / 2, 1, False)]
           (new_Solver ''LSMR'')) 0
      = Some \<lparr>ev1Idx = 0, ev2Idx = 1, phStaIdx = 0, observedDiffTime = 1 / 2,
               aPrioriWeight = 1, isXcorr = False\<rparr>"
    by (simp add: after_addObservations_def after_addObservation_def addObservation_def
        new_Solver_def hasId_def convert_def Let_def)
  from addObservation_rejects_duplicate [OF mem key, of example_ids "new_Solver ''LSMR''"] stored
  show ?thesis by simp
qed

subsection \<open>The matrix-vector product\<close>

lemma event_term_claimed:
  assumes "no_parameters ev \<or> vec4_nth (G_at sys (ev_index ev) (unat s)) 3 = 1"
  shows "event_term sys x ev s = claimed_side sys x ev s"
proof (cases "no_parameters ev")
  case True
  then show ?thesis by (simp add: event_term_def claimed_side_def no_parameters_def)
next
  case False
  obtain gx gy gz gt where g: "G_at sys (ev_index ev) (unat s) = (gx, gy, gz, gt)"
    by (cases "G_at sys (ev_index ev) (unat s)") auto
  with assms False have "gt = 1" by simp
  with False g show ?thesis
    by (simp add: event_term_def claimed_side_def no_parameters_def G_at_def ev_index_def)
qed

lemma G_index_bound:
  assumes "e < ne" and "s < np"
  shows "e * np + s < ne * (np::nat)"
proof -
  have "e * np + s < e * np + np" using assms by simp
  also have "\<dots> = (e + 1) * np" by simp
  also have "\<dots> \<le> ne * np" using assms by (intro mult_le_mono1) simp
  finally show ?thesis .
qed

text \<open>
  C1. On a system within its bounds whose 4-vectors end with 1, the product has a
  result \<open>y\<close>, one entry per row. For an observation row \<open>r\<close> with event indices
  \<open>(e1, e2)\<close> and phase-station \<open>phSta\<close>, \<open>y[r] = W[r] \<cdot> (\<Sum>_k G[e1,phSta][k]\<cdot>x[e1\<cdot>4+k] -
  \<Sum>_k G[e2,phSta][k]\<cdot>x[e2\<cdot>4+k])\<close>, the coefficient for \<open>k = 3\<close> being 1 on the first
  side and so -1 on the second, and a side whose index is \<open>-1\<close> being dropped. For the
  constraint row of event \<open>e\<close>, \<open>y[r] = W[r] \<cdot> x[e\<cdot>4+3]\<close>.
\<close>

theorem product_row_formula:
  assumes "in_bounds sys" and "length x = unat (numColsG sys)"
    and "list_all (\<lambda>g. vec4_nth g 3 = 1) (G sys)"
  shows "\<exists>y. product sys x = Some y \<and> length y = unat (numRowsG sys)
    \<and> (\<forall>r < unat (nObs sys). y ! r = W sys ! r *
          (claimed_side sys x (fst (evByObs sys) ! r) (phStaByObs sys ! r)
           - claimed_side sys x (snd (evByObs sys) ! r) (phStaByObs sys ! r)))
    \<and> (\<forall>e < unat (nTTconstraints sys).
          y ! (unat (nObs sys) + e) = W sys ! (unat (nObs sys) + e) * x ! (e * 4 + 3))"
proof -
  have rows: "unat (numRowsG sys) = unat (nObs sys) + unat (nTTconstraints sys)"
    using assms(1) by (simp add: in_bounds_def)
  have one: "vec4_nth (G_at sys (ev_index ev) (unat s)) 3 = 1"
    if "valid_ev sys ev" "\<not> no_parameters ev" "s < nPhStas sys" for ev s
  proof -
    from that have "ev_index ev < unat (nEvts sys)" by (simp add: valid_ev_def)
    moreover from that have "unat s < unat (nPhStas sys)" by (simp add: word_less_nat_alt)
    ultimately have "ev_index ev * unat (nPhStas sys) + unat s < length (G sys)"
      using assms(1) by (simp add: in_bounds_def G_index_bound)
    with assms(3) show ?thesis by (simp add: G_at_def list_all_length)
  qed
  have obs: "row_product sys x r = W sys ! r *
          (claimed_side sys x (fst (evByObs sys) ! r) (phStaByObs sys ! r)
           - claimed_side sys x (snd (evByObs sys) ! r) (phStaByObs sys ! r))"
    if r: "r < unat (nObs sys)" for r
  proof -
    from r rows assms(1) have v1: "valid_ev sys (fst (evByObs sys) ! r)"
      and v2: "valid_ev sys (snd (evByObs sys) ! r)"
      and s: "phStaByObs sys ! r < nPhStas sys"
      by (simp_all add: in_bounds_def list_all_length)
    have "event_term sys x (fst (evByObs sys) ! r) (phStaByObs sys ! r)
        = claimed_side sys x (fst (evByObs sys) ! r) (phStaByObs sys ! r)"
      using one [OF v1 _ s] by (intro event_term_claimed) blast
    moreover have "event_term sys x (snd (evByObs sys) ! r) (phStaByObs sys ! r)
        = claimed_side sys x (snd (evByObs sys) ! r) (phStaByObs sys ! r)"
      using one [OF v2 _ s] by (intro event_term_claimed) blast
    ultimately show ?thesis using r by (simp add: row_product_def)
  qed
  have con: "row_product sys x (unat (nObs sys) + e)
      = W sys ! (unat (nObs sys) + e) * x ! (e * 4 + 3)" for e
    by (simp add: row_product_def)
  have "product sys x = Some (product_rows sys x)"
    using assms(1,2) by (simp add: product_def)
  moreover have "length (product_rows sys x) = unat (numRowsG sys)"
    by (simp add: product_rows_def)
  moreover have "\<forall>r < unat (nObs sys). product_rows sys x ! r = W sys ! r *
          (claimed_side sys x (fst (evByObs sys) ! r) (phStaByObs sys ! r)
           - claimed_side sys x (snd (evByObs sys) ! r) (phStaByObs sys ! r))"
    using obs rows by (simp add: product_rows_def)
  moreover have "\<forall>e < unat (nTTconstraints sys).
      product_rows sys x ! (unat (nObs sys) + e)
        = W sys ! (unat (nObs sys) + e) * x ! (e * 4 + 3)"
    using con rows by (simp add: product_rows_def)
  ultimately show ?thesis by blast
qed

lemma in_bounds_example_system: "in_bounds example_system"
  by (simp add: in_bounds_def example_system_def valid_ev_def no_parameters_def ev_index_def)

theorem product_row_formula_witness:
  "in_bounds example_system \<and> length example_x = unat (numColsG example_system)
   \<and> list_all (\<lambda>g. vec4_nth g 3 = 1) (G example_system)
   \<and> product example_system example_x = Some [4, 8, 1, 2]
   \<and> (\<exists>y. product example_system example_x = Some y \<and> y ! 1 = W example_system ! 1 *
        (claimed_side example_system example_x 1 0 - claimed_side example_system example_x (- 1) 0))"
proof -
  have h2: "length example_x = unat (numColsG example_system)"
    by (simp add: example_x_def example_system_def)
  have h3: "list_all (\<lambda>g. vec4_nth g 3 = 1) (G example_system)"
    by (simp add: example_system_def)
  have val: "product example_system example_x = Some [4, 8, 1, 2]"
    using in_bounds_example_system h2
    by (simp add: product_def product_rows_def)
      (simp add: example_system_def example_x_def row_product_def event_term_def G_at_def
        no_parameters_def ev_index_def upt_rec)
  from product_row_formula [OF in_bounds_example_system h2 h3]
  obtain y where y: "product example_system example_x = Some y"
    and r: "\<forall>r < unat (nObs example_system). y ! r = W example_system ! r *
          (claimed_side example_system example_x (fst (evByObs example_system) ! r)
              (phStaByObs example_system ! r)
           - claimed_side example_system example_x (snd (evByObs example_system) ! r)
              (phStaByObs example_system ! r))"
    by blast
  have "(1::nat) < unat (nObs example_system)" by (simp add: example_system_def)
  with r have "y ! 1 = W example_system ! 1 *
          (claimed_side example_system example_x (fst (evByObs example_system) ! 1)
              (phStaByObs example_system ! 1)
           - claimed_side example_system example_x (snd (evByObs example_system) ! 1)
              (phStaByObs example_system ! 1))"
    by blast
  moreover have "fst (evByObs example_system) ! 1 = 1" "snd (evByObs example_system) ! 1 = - 1"
    "phStaByObs example_system ! 1 = 0"
    by (simp_all add: example_system_def)
  ultimately have "y ! 1 = W example_system ! 1 *
        (claimed_side example_system example_x 1 0 - claimed_side example_system example_x (- 1) 0)"
    by simp
  with y in_bounds_example_system h2 h3 val show ?thesis by blast
qed

subsection \<open>Column normalization\<close>

lemma event_term_scale:
  assumes "valid_ev sys ev" and "length x = 4 * unat (nEvts sys)"
  shows "event_term sys (map ((*) a) x) ev s = a * event_term sys x ev s"
proof (cases "no_parameters ev")
  case True
  then show ?thesis by (simp add: event_term_def)
next
  case False
  with assms have "ev_index ev * 4 + 3 < length x" by (simp add: valid_ev_def)
  with False show ?thesis by (simp add: event_term_def algebra_simps)
qed

lemma row_product_scale:
  assumes "in_bounds sys" and "length x = unat (numColsG sys)" and "r < unat (numRowsG sys)"
  shows "row_product sys (map ((*) a) x) r = a * row_product sys x r"
proof (cases "r < unat (nObs sys)")
  case True
  with assms(1) have "valid_ev sys (fst (evByObs sys) ! r)"
    and "valid_ev sys (snd (evByObs sys) ! r)"
    by (simp_all add: in_bounds_def list_all_length)
  moreover from assms have "length x = 4 * unat (nEvts sys)" by (simp add: in_bounds_def)
  ultimately show ?thesis
    using True by (simp add: row_product_def event_term_scale algebra_simps)
next
  case False
  from assms have "r < unat (nObs sys) + unat (nTTconstraints sys)"
    and "unat (nTTconstraints sys) \<le> unat (nEvts sys)" and "length x = 4 * unat (nEvts sys)"
    by (simp_all add: in_bounds_def)
  with False have "(r - unat (nObs sys)) * 4 + 3 < length x" by arith
  with False show ?thesis by (simp add: row_product_def)
qed

lemma product_rows_scale:
  assumes "in_bounds sys" and "length x = unat (numColsG sys)"
  shows "product_rows sys (map ((*) a) x) = map ((*) a) (product_rows sys x)"
  using assms by (simp add: product_rows_def row_product_scale)

lemma l2norm_scale: "l2norm (map ((*) a) ys) = \<bar>a\<bar> * l2norm ys"
proof -
  have "(\<Sum>y\<leftarrow>map ((*) a) ys. y\<^sup>2) = a\<^sup>2 * (\<Sum>y\<leftarrow>ys. y\<^sup>2)"
    by (induction ys) (simp_all add: power_mult_distrib algebra_simps)
  then show ?thesis by (simp add: l2norm_def real_sqrt_mult)
qed

lemma l2norm_nonneg: "0 \<le> l2norm ys"
  unfolding l2norm_def by (intro real_sqrt_ge_zero sum_list_nonneg) auto

lemma divide_unit_vector:
  assumes "c < n" and "length l = n"
  shows "map (\<lambda>(v, l). v / l) (zip (unit_vector n c) l)
    = map ((*) (1 / l ! c)) (unit_vector n c)"
  using assms by (intro nth_equalityI) (auto simp: unit_vector_def nth_list_update)

lemma product_rows_computeL2NScaler: "product_rows (computeL2NScaler sys) x = product_rows sys x"
proof -
  have "row_product (computeL2NScaler sys) x r = row_product sys x r" for r
    by (simp add: row_product_def event_term_def G_at_def computeL2NScaler_def)
  then show ?thesis by (simp add: product_rows_def computeL2NScaler_def)
qed

lemma valid_ev_L2NScaler_update: "valid_ev (sys\<lparr>L2NScaler := l\<rparr>) = valid_ev sys"
  by (rule ext) (simp add: valid_ev_def)

lemma in_bounds_computeL2NScaler: "in_bounds (computeL2NScaler sys) = in_bounds sys"
  by (simp add: in_bounds_def computeL2NScaler_def valid_ev_L2NScaler_update)

lemma product_computeL2NScaler: "product (computeL2NScaler sys) x = product sys x"
  by (simp add: product_def in_bounds_computeL2NScaler product_rows_computeL2NScaler)
    (simp add: computeL2NScaler_def)

text \<open>
  C6. With the normalization on, on a system within its bounds, the scaler of every
  column \<open>c\<close> is the L2 norm of column \<open>c\<close>, and 1 where that norm is 0. The matching
  column of the effective matrix, the normalized product with the unit vector
  \<open>e_c\<close>, then has the L2 norm 0 or 1. And when \<open>m'\<close> is a solution of the normalized
  system for a right-hand side, \<open>m = m' / L2NScaler\<close> is one of the system itself.
  The doubles are real numbers here: the norm of a column of doubles is 1 up to
  rounding only.
\<close>

theorem column_normalization:
  assumes "in_bounds sys" and "c < unat (numColsG sys)"
  defines "sys' \<equiv> computeL2NScaler sys"
  shows "L2NScaler sys' ! c = (if column_norm sys c = 0 then 1 else column_norm sys c)
    \<and> (\<exists>col. normalized_product sys' (unit_vector (unat (numColsG sys')) c) = Some col
          \<and> (l2norm col = 0 \<or> l2norm col = 1))
    \<and> (\<forall>m' b. length m' = unat (numColsG sys) \<and> normalized_product sys' m' = Some b
          \<longrightarrow> product sys (divide_by_scaler sys' m') = Some b)"
proof -
  let ?n = "unat (numColsG sys)"
  have n': "unat (numColsG sys') = ?n" by (simp add: sys'_def computeL2NScaler_def)
  have len: "length (L2NScaler sys') = ?n" by (simp add: sys'_def computeL2NScaler_def)
  have scaler: "L2NScaler sys' ! c = (if column_norm sys c = 0 then 1 else column_norm sys c)"
    using assms(2) by (simp add: sys'_def computeL2NScaler_def)
  have pos: "0 < L2NScaler sys' ! c"
    using l2norm_nonneg [of "product_rows sys (unit_vector ?n c)"]
    by (simp add: scaler column_norm_def)
  let ?a = "1 / L2NScaler sys' ! c"
  have lu: "length (unit_vector ?n c) = ?n"
    by (simp add: unit_vector_def)
  have du: "divide_by_scaler sys' (unit_vector ?n c) = map ((*) ?a) (unit_vector ?n c)"
    unfolding divide_by_scaler_def using assms(2) len by (rule divide_unit_vector)
  have "normalized_product sys' (unit_vector ?n c)
      = product sys' (map ((*) ?a) (unit_vector ?n c))"
    by (simp add: normalized_product_def len n' du)
  also have "\<dots> = product sys (map ((*) ?a) (unit_vector ?n c))"
    by (simp add: sys'_def product_computeL2NScaler)
  also have "\<dots> = Some (product_rows sys (map ((*) ?a) (unit_vector ?n c)))"
    using assms(1) lu by (simp add: product_def)
  finally have np0: "normalized_product sys' (unit_vector ?n c)
      = Some (product_rows sys (map ((*) ?a) (unit_vector ?n c)))" .
  have "product_rows sys (map ((*) ?a) (unit_vector ?n c))
      = map ((*) ?a) (product_rows sys (unit_vector ?n c))"
    using assms(1) lu by (rule product_rows_scale)
  with np0 have np: "normalized_product sys' (unit_vector ?n c)
      = Some (map ((*) ?a) (product_rows sys (unit_vector ?n c)))" by simp
  have "l2norm (map ((*) ?a) (product_rows sys (unit_vector ?n c))) = ?a * column_norm sys c"
    using pos by (simp add: l2norm_scale column_norm_def)
  also have "\<dots> = (if column_norm sys c = 0 then 0 else 1)"
    by (simp add: scaler)
  finally have "l2norm (map ((*) ?a) (product_rows sys (unit_vector ?n c))) = 0
      \<or> l2norm (map ((*) ?a) (product_rows sys (unit_vector ?n c))) = 1"
    by (simp split: if_splits)
  with np have col: "\<exists>col.
      normalized_product sys' (unit_vector (unat (numColsG sys')) c) = Some col
        \<and> (l2norm col = 0 \<or> l2norm col = 1)"
    by (simp add: n')
  have denorm: "\<forall>m' b. length m' = ?n \<and> normalized_product sys' m' = Some b
          \<longrightarrow> product sys (divide_by_scaler sys' m') = Some b"
    by (simp add: normalized_product_def len n') (simp add: sys'_def product_computeL2NScaler)
  from scaler col denorm show ?thesis by blast
qed

theorem column_normalization_witness:
  "in_bounds example_system \<and> (0::nat) < unat (numColsG example_system)
   \<and> L2NScaler (computeL2NScaler example_system) ! 0 = 3
   \<and> (\<exists>col. normalized_product (computeL2NScaler example_system) (unit_vector 8 0) = Some col
          \<and> (l2norm col = 0 \<or> l2norm col = 1))"
proof -
  have c: "(0::nat) < unat (numColsG example_system)"
    by (simp add: example_system_def)
  have n: "unat (numColsG (computeL2NScaler example_system)) = 8"
    by (simp add: computeL2NScaler_def example_system_def)
  have "product_rows example_system (unit_vector 8 0) = [3, 0, 0, 0]"
    by (simp add: product_rows_def)
      (simp add: example_system_def unit_vector_def row_product_def event_term_def G_at_def
        no_parameters_def ev_index_def upt_rec)
  then have "column_norm example_system 0 = sqrt (3\<^sup>2)"
    by (simp add: column_norm_def l2norm_def) (simp add: example_system_def)
  then have norm: "column_norm example_system 0 = 3"
    by simp
  from column_normalization [OF in_bounds_example_system c] norm n
  have "L2NScaler (computeL2NScaler example_system) ! 0 = 3"
    and "\<exists>col. normalized_product (computeL2NScaler example_system) (unit_vector 8 0) = Some col
          \<and> (l2norm col = 0 \<or> l2norm col = 1)"
    by simp_all
  with in_bounds_example_system c show ?thesis by blast
qed

subsection \<open>Residual weights\<close>







subsection \<open>Failures of the travel-time adapter\<close>

lemma length_relocate: "length (relocate compute solver obs n st) = n"
  by (induction n arbitrary: st) (simp_all split: prod.splits)

lemma relocate_nth:
  "j < n \<Longrightarrow> relocate compute solver obs n st ! j
     = fst (outer_iteration compute solver obs (state_before compute solver obs j st))"
proof (induction n arbitrary: st j)
  case 0
  then show ?case by simp
next
  case (Suc n)
  then show ?case
    by (cases j) (simp_all split: prod.splits)
qed

lemma fixed_outer_iteration:
  "set (fixed_events st) \<subseteq> set (fixed_events (snd (outer_iteration compute solver obs st)))"
  by (simp add: outer_iteration_def Let_def)

lemma state_before_Suc:
  "state_before compute solver obs (Suc i) st
     = snd (outer_iteration compute solver obs (state_before compute solver obs i st))"
  by (induction i arbitrary: st) simp_all

lemma fixed_mono:
  "i \<le> j \<Longrightarrow> set (fixed_events (state_before compute solver obs i st))
     \<subseteq> set (fixed_events (state_before compute solver obs j st))"
proof (induction j)
  case 0
  then show ?case by simp
next
  case (Suc j)
  show ?case
  proof (cases "i = Suc j")
    case True
    then show ?thesis by simp
  next
    case False
    with Suc have "set (fixed_events (state_before compute solver obs i st))
        \<subseteq> set (fixed_events (state_before compute solver obs j st))" by simp
    also have "\<dots> \<subseteq> set (fixed_events (state_before compute solver obs (Suc j) st))"
      unfolding state_before_Suc by (rule fixed_outer_iteration)
    finally show ?thesis .
  qed
qed

lemma failed_is_fixed:
  assumes "ob \<in> set obs"
    and "(e = ob_ev1 ob \<and> isl (compute (hypocenters st ! ob_ev1 ob) (ob_phSta ob)))
       \<or> (e = ob_ev2 ob \<and> isl (compute (hypocenters st ! ob_ev2 ob) (ob_phSta ob)))"
  shows "e \<in> set (fixed_events (snd (outer_iteration compute solver obs st)))"
proof -
  from assms have "e \<in> set (failed_events compute (hypocenters st) obs)"
    by (auto simp: failed_events_def)
  then show ?thesis by (simp add: outer_iteration_def Let_def)
qed

lemma rows_outer_iteration:
  "fst (outer_iteration compute solver obs st)
     = map (build_row (fixed_events (snd (outer_iteration compute solver obs st))))
         (filter (has_travel_times compute (hypocenters st)) obs)"
  by (simp add: outer_iteration_def Let_def)

text \<open>
  C7. A request to the adapter either fails or returns the four values \<open>(travelTime,
  takeOfAngleAzim, takeOfAngleDip, velocityAtSrc)\<close>. When, in outer iteration \<open>i\<close>, the
  adapter fails for an event \<open>e\<close> at a phase-station that an observation of \<open>e\<close>
  refers to, the driver does not abort: it builds the system of each of its \<open>n\<close>
  iterations, and in the system of every iteration \<open>j\<close> from \<open>i\<close> on, each row built
  from an observation of \<open>e\<close> has the index \<open>-1\<close> in the place of \<open>e\<close>.
\<close>

theorem failed_event_stays_fixed:
  fixes compute :: adapter and solver :: inner_solver
  assumes "i \<le> j" and "j < n" and "ob \<in> set obs"
    and "(e = ob_ev1 ob
          \<and> isl (compute (hypocenters (state_before compute solver obs i st) ! ob_ev1 ob)
                 (ob_phSta ob)))
       \<or> (e = ob_ev2 ob
          \<and> isl (compute (hypocenters (state_before compute solver obs i st) ! ob_ev2 ob)
                 (ob_phSta ob)))"
  shows "length (relocate compute solver obs n st) = n
    \<and> (\<exists>fixed. e \<in> set fixed
          \<and> relocate compute solver obs n st ! j
              = map (build_row fixed)
                  (filter (has_travel_times compute
                     (hypocenters (state_before compute solver obs j st))) obs)
          \<and> (\<forall>ob'. ob_ev1 ob' = e \<longrightarrow> no_parameters (row_ev1 (build_row fixed ob')))
          \<and> (\<forall>ob'. ob_ev2 ob' = e \<longrightarrow> no_parameters (row_ev2 (build_row fixed ob'))))
    \<and> (\<forall>h s. isl (compute h s)
          \<or> (\<exists>tt az dip v. compute h s =
                Inr \<lparr>tt_travelTime = tt, tt_takeOfAngleAzim = az, tt_takeOfAngleDip = dip,
                     tt_velocityAtSrc = v\<rparr>))"
proof -
  let ?S = "state_before compute solver obs"
  let ?fixed = "fixed_events (?S (Suc j) st)"
  have "e \<in> set (fixed_events (?S (Suc i) st))"
    unfolding state_before_Suc using assms(3,4) by (rule failed_is_fixed)
  moreover have "set (fixed_events (?S (Suc i) st)) \<subseteq> set ?fixed"
    using assms(1) by (intro fixed_mono) simp
  ultimately have mem: "e \<in> set ?fixed" by blast
  have rows: "relocate compute solver obs n st ! j
      = map (build_row ?fixed) (filter (has_travel_times compute (hypocenters (?S j st))) obs)"
    using assms(2) by (simp only: relocate_nth state_before_Suc rows_outer_iteration)
  have minus1: "\<forall>ob'. ob_ev1 ob' = e \<longrightarrow> no_parameters (row_ev1 (build_row ?fixed ob'))"
    "\<forall>ob'. ob_ev2 ob' = e \<longrightarrow> no_parameters (row_ev2 (build_row ?fixed ob'))"
    using mem by (simp_all add: build_row_def pack_index_def no_parameters_def)
  have quad: "isl (compute h s)
      \<or> (\<exists>tt az dip v. compute h s =
            Inr \<lparr>tt_travelTime = tt, tt_takeOfAngleAzim = az, tt_takeOfAngleDip = dip,
                 tt_velocityAtSrc = v\<rparr>)" for h s
  proof (cases "compute h s")
    case (Inl err)
    then show ?thesis by simp
  next
    case (Inr q)
    then show ?thesis by (cases q) simp
  qed
  from mem rows minus1 quad length_relocate [of compute solver obs n st]
  show ?thesis by blast
qed

theorem failed_event_stays_fixed_witness:
  "(0::nat) \<le> 1 \<and> (1::nat) < 2
   \<and> \<lparr>ob_ev1 = 2, ob_ev2 = 1, ob_phSta = 1\<rparr> \<in> set example_obs
   \<and> isl (example_compute
        (hypocenters (state_before example_compute example_solver example_obs 0 example_driver) ! 2)
        1)
   \<and> length (relocate example_compute example_solver example_obs 2 example_driver) = 2
   \<and> relocate example_compute example_solver example_obs 2 example_driver ! 1
       = [\<lparr>row_ev1 = 0, row_ev2 = 1, row_phSta = 0\<rparr>,
          \<lparr>row_ev1 = - 1, row_ev2 = 1, row_phSta = 0\<rparr>]
   \<and> (\<exists>fixed. (2::nat) \<in> set fixed
        \<and> relocate example_compute example_solver example_obs 2 example_driver ! 1
            = map (build_row fixed)
                (filter (has_travel_times example_compute
                   (hypocenters (state_before example_compute example_solver example_obs 1
                      example_driver))) example_obs))"
proof -
  let ?ob = "\<lparr>ob_ev1 = 2, ob_ev2 = 1, ob_phSta = 1\<rparr>"
  have h1: "(0::nat) \<le> 1" and h2: "(1::nat) < 2" by simp_all
  have h3: "?ob \<in> set example_obs" by (simp add: example_obs_def)
  have fails: "isl (example_compute
        (hypocenters (state_before example_compute example_solver example_obs 0 example_driver) ! 2)
        1)"
    by (simp add: example_compute_def example_driver_def)
  then have h4: "(2 = ob_ev1 ?ob
          \<and> isl (example_compute
                 (hypocenters (state_before example_compute example_solver example_obs 0
                    example_driver) ! ob_ev1 ?ob) (ob_phSta ?ob)))
       \<or> (2 = ob_ev2 ?ob
          \<and> isl (example_compute
                 (hypocenters (state_before example_compute example_solver example_obs 0
                    example_driver) ! ob_ev2 ?ob) (ob_phSta ?ob)))"
    by simp
  have val: "relocate example_compute example_solver example_obs 2 example_driver
       = [[\<lparr>row_ev1 = 0, row_ev2 = 1, row_phSta = 0\<rparr>,
           \<lparr>row_ev1 = - 1, row_ev2 = 1, row_phSta = 0\<rparr>],
          [\<lparr>row_ev1 = 0, row_ev2 = 1, row_phSta = 0\<rparr>,
           \<lparr>row_ev1 = - 1, row_ev2 = 1, row_phSta = 0\<rparr>]]"
    by (simp add: numeral_2_eq_2 outer_iteration_def failed_events_def has_travel_times_def
        build_row_def pack_index_def example_obs_def example_driver_def example_compute_def
        example_solver_def Let_def)
  from failed_event_stays_fixed [OF h1 h2 h3 h4]
  have "length (relocate example_compute example_solver example_obs 2 example_driver) = 2"
    and "\<exists>fixed. (2::nat) \<in> set fixed
        \<and> relocate example_compute example_solver example_obs 2 example_driver ! 1
            = map (build_row fixed)
                (filter (has_travel_times example_compute
                   (hypocenters (state_before example_compute example_solver example_obs 1
                      example_driver))) example_obs)"
    by blast+
  with h3 fails val show ?thesis by simp
qed

end
